theory Spec2Isabelle
  imports Main "HOL-Library.Sublist"
begin

section \<open>Strings\<close>

text \<open>
  A JavaScript string is a sequence of code units.  The model uses \<^typ>\<open>string\<close>, so it
  covers the code units below 256 (the Latin-1 range); \<open>length\<close> counts code units, as
  \<open>String.prototype.length\<close> does.
\<close>

definition includes_js :: "string \<Rightarrow> string \<Rightarrow> bool" where
  \<comment> \<open>\<open>s.includes(needle)\<close>: \<open>needle\<close> occurs in \<open>s\<close> as a contiguous run.\<close>
  "includes_js s needle = sublist needle s"

definition isWhiteSpace :: "char \<Rightarrow> bool" where
  \<comment> \<open>WhiteSpace and LineTerminator of ECMAScript, below 256: TAB, LF, VT, FF, CR, SP, NBSP.\<close>
  "isWhiteSpace c = (of_char c \<in> {9, 10, 11, 12, 13, 32, 160 :: nat})"

definition trim :: "string \<Rightarrow> string" where
  \<comment> \<open>\<open>s.trim()\<close>\<close>
  "trim s = rev (dropWhile isWhiteSpace (rev (dropWhile isWhiteSpace s)))"

definition toLowerCase_char :: "char \<Rightarrow> char" where
  \<comment> \<open>A-Z, and the Latin-1 capitals 192-222 without the multiplication sign 215.\<close>
  "toLowerCase_char c =
     (let n = (of_char c :: nat)
      in if (65 \<le> n \<and> n \<le> 90) \<or> (192 \<le> n \<and> n \<le> 222 \<and> n \<noteq> 215)
         then char_of (n + 32) else c)"

definition toLowerCase :: "string \<Rightarrow> string" where
  "toLowerCase s = map toLowerCase_char s"

definition substring :: "string \<Rightarrow> nat \<Rightarrow> nat \<Rightarrow> string" where
  \<comment> \<open>\<open>s.substring(a, b)\<close> on non-negative integers: the arguments are clamped to the
      length and swapped when \<open>a > b\<close>.\<close>
  "substring s a b =
     (let n = length s; a' = min a n; b' = min b n;
          lo = min a' b'; hi = max a' b'
      in take (hi - lo) (drop lo s))"

fun split_space :: "string \<Rightarrow> string list" where
  \<comment> \<open>\<open>s.split(' ')\<close>: never the empty list; \<open>''''.split(' ')\<close> is \<open>['''']\<close>.\<close>
  "split_space [] = [[]]"
| "split_space (c # cs) =
     (if c = CHR '' '' then [] # split_space cs
      else (case split_space cs of
              [] \<Rightarrow> [[c]]
            | t # ts \<Rightarrow> (c # t) # ts))"

fun join :: "string \<Rightarrow> string list \<Rightarrow> string" where
  \<comment> \<open>\<open>xs.join(sep)\<close> on strings\<close>
  "join sep [] = []"
| "join sep [x] = x"
| "join sep (x # y # ys) = x @ sep @ join sep (y # ys)"

definition digit_char :: "nat \<Rightarrow> char" where
  "digit_char d = char_of (48 + d)"

function string_of_nat :: "nat \<Rightarrow> string" where
  \<comment> \<open>\<open>String(n)\<close> for a non-negative integer below 10^21: its decimal digits.\<close>
  "string_of_nat n =
     (if n < 10 then [digit_char n] else string_of_nat (n div 10) @ [digit_char (n mod 10)])"
  by pat_completeness auto
termination
  by (relation "measure id") auto

declare string_of_nat.simps [simp del]


section \<open>Values that arrive as JSON\<close>

text \<open>
  What a response body parses to has no type at run time: the client reads it as \<open>any\<close>.
  A parsed body is a \<open>json\<close>; the result of reading a property is a \<open>json option\<close>,
  \<open>None\<close> being \<open>undefined\<close>.  \<open>JNum\<close> carries the integers; a fraction behaves like any
  other number that is not zero wherever a number is read below.
\<close>

datatype json =
    JNull
  | JBool bool
  | JNum int
  | JStr string
  | JArr "json list"
  | JObj "(string \<times> json) list"

definition truthy :: "json option \<Rightarrow> bool" where
  \<comment> \<open>What \<open>if (v)\<close>, \<open>!v\<close>, \<open>v && ...\<close> and \<open>v || ...\<close> test.\<close>
  "truthy v =
     (case v of
        None \<Rightarrow> False
      | Some JNull \<Rightarrow> False
      | Some (JBool b) \<Rightarrow> b
      | Some (JNum n) \<Rightarrow> n \<noteq> 0
      | Some (JStr s) \<Rightarrow> s \<noteq> []
      | Some (JArr xs) \<Rightarrow> True
      | Some (JObj kvs) \<Rightarrow> True)"

fun member :: "json \<Rightarrow> string \<Rightarrow> json option" where
  \<comment> \<open>\<open>v.k\<close> on a value that is not null, for the keys read in this client (\<open>detail\<close>,
      \<open>message\<close>, \<open>healthy\<close>, \<open>content\<close>, \<open>finished\<close>, \<open>provider\<close>, \<open>configured\<close>,
      \<open>available_models\<close>), none of which a string, an array or \<open>Object.prototype\<close> has:
      the value of the key in an object, its last one if the key is repeated, as
      \<open>JSON.parse\<close> keeps it; \<open>undefined\<close> otherwise.\<close>
  "member (JObj kvs) k = map_of (rev kvs) k"
| "member _ k = None"

definition opt_member :: "json option \<Rightarrow> string \<Rightarrow> json option" where
  \<comment> \<open>\<open>v?.k\<close>\<close>
  "opt_member v k = (case v of None \<Rightarrow> None | Some JNull \<Rightarrow> None | Some w \<Rightarrow> member w k)"

definition or_js :: "json option \<Rightarrow> json option \<Rightarrow> json option" where
  \<comment> \<open>\<open>a || b\<close>\<close>
  "or_js a b = (if truthy a then a else b)"

definition or_value :: "json option \<Rightarrow> json \<Rightarrow> json" where
  \<comment> \<open>\<open>a || b\<close> where \<open>b\<close> is not undefined\<close>
  "or_value a b = (case a of None \<Rightarrow> b | Some v \<Rightarrow> if truthy (Some v) then v else b)"



section \<open>Data model (types/index.ts)\<close>

type_synonym date = nat

datatype role = user | assistant | system

record ToolCall =
  tc_id :: string
  tc_name :: string
  tc_arguments :: "(string \<times> json) list"

record Message =
  msg_id :: string
  msg_role :: role
  msg_content :: string
  msg_timestamp :: date
  msg_toolCalls :: "ToolCall list option"

record Chat =
  chat_id :: string
  chat_title :: string
  chat_createdAt :: date
  chat_updatedAt :: date
  chat_messages :: "Message list"

datatype artifact_type = report | dashboard | table | script | diagram

record Artifact =
  art_id :: string
  art_title :: string
  art_type :: artifact_type
  art_content :: string
  art_preview :: "string option"
  art_code :: "string option"
  art_metadata :: "(string \<times> json) list option"

section \<open>Application state (App)\<close>

datatype nav = chats_nav | tools_nav | starred_nav

text \<open>
  A model option is built from what a status answer holds, unchecked (see
  \<open>loadAvailableModels\<close>), so three of its fields are JSON values.  The selected model and
  provider start as strings and may be set from such an option.
\<close>

record ModelOption =
  mo_value :: json
  mo_label :: string
  mo_provider :: "json option"
  mo_healthy :: "json option"

record App =
  chats :: "Chat list"
  activeChatId :: "string option"
  currentChat :: "Chat option"
  selectedProvider :: "json option"
  selectedModel :: "json option"
  availableProviders :: "string list"
  artifact :: "Artifact option"
  darkMode :: bool
  showSettings :: bool
  availableModels :: "ModelOption list"
  activeNav :: nav

definition handleDeleteChat :: "string \<Rightarrow> App \<Rightarrow> App" where
  "handleDeleteChat chatId st =
     (let st1 = st\<lparr>chats := filter (\<lambda>c. chat_id c \<noteq> chatId) (chats st)\<rparr>
      in if activeChatId st = Some chatId
         then st1\<lparr>activeChatId := None, currentChat := None\<rparr>
         else st1)"

definition new_title :: "Chat \<Rightarrow> Message \<Rightarrow> string" where
  "new_title c message =
     (if chat_title c = ''New Chat'' \<and> msg_role message = user
      then substring (msg_content message) 0 50
           @ (if length (msg_content message) > 50 then ''...'' else '''')
      else chat_title c)"

definition handleNewMessage :: "date \<Rightarrow> Message \<Rightarrow> App \<Rightarrow> App \<Rightarrow> App" where
  \<comment> \<open>\<open>handleNewMessage\<close> is a closure of one render of \<open>App\<close>: the \<open>currentChat\<close> and
      \<open>chats\<close> it reads are those of that render, \<open>rendered\<close>; \<open>setCurrentChat\<close> and
      \<open>setChats\<close> overwrite the state as it is when the call is made, \<open>live\<close>.  \<open>now\<close> is
      the value of \<open>new Date()\<close>.\<close>
  "handleNewMessage now message rendered live =
     (case currentChat rendered of
        None \<Rightarrow> live
      | Some cur \<Rightarrow>
          (let updatedChat = cur\<lparr>chat_messages := chat_messages cur @ [message],
                                 chat_updatedAt := now,
                                 chat_title := new_title cur message\<rparr>
           in live\<lparr>currentChat := Some updatedChat,
                   chats := map (\<lambda>c. if chat_id c = chat_id updatedChat then updatedChat else c)
                                (chats rendered)\<rparr>))"

definition answered_send :: "date \<Rightarrow> date \<Rightarrow> Message \<Rightarrow> Message \<Rightarrow> App \<Rightarrow> App" where
  \<comment> \<open>The two appends of one answered \<open>handleSend\<close> (ChatInterface.tsx, lines 51 and 79):
      \<open>handleSend\<close> holds the \<open>onNewMessage\<close> of the render in which it was started and
      calls it before and after the \<open>await\<close>, while the first call has changed the state.\<close>
  "answered_send t1 t2 userMessage assistantMessage rendered =
     handleNewMessage t2 assistantMessage rendered
       (handleNewMessage t1 userMessage rendered rendered)"

section \<open>HTTP client (services/api.ts)\<close>

record WireMessage =
  wm_role :: role
  wm_content :: string

record 'm ChatRequest =
  req_provider :: string
  req_messages :: "'m list"
  req_model :: "string option"
  req_stream :: "bool option"

record Usage =
  prompt_tokens :: nat
  completion_tokens :: nat
  total_tokens :: nat

record ChatResponse =
  resp_content :: string
  resp_model :: string
  resp_finish_reason :: "string option"
  resp_usage :: "Usage option"
  resp_tool_calls :: "json list option"

text \<open>
  A thrown value, as far as a handler reads it: \<open>error?.response?.data?.detail\<close>,
  \<open>error?.message\<close> and \<open>String(error)\<close>.  The first two are whatever was put there.
\<close>

record js_error =
  err_detail :: "json option"
  err_message :: "json option"
  err_String :: string

text \<open>
  How an axios call settles: fulfilled with \<open>response.data\<close>; rejected with
  \<open>error.response\<close> set (the server answered; \<open>error.response.data\<close> is its body, if
  any); rejected with only \<open>error.request\<close> set (no answer); rejected with anything else.
\<close>

datatype 'a axios_outcome =
    Fulfilled 'a
  | RejectedResponse "json option"
  | RejectedNoResponse
  | RejectedOther js_error

datatype 'q net_call = POST string 'q | GET string

datatype 'a completion = Returned 'a | Threw js_error

definition server_detail :: "json option \<Rightarrow> json" where
  \<comment> \<open>\<open>error.response.data?.detail || error.response.data?.message || 'An error occurred'\<close>\<close>
  "server_detail d =
     or_value (or_js (opt_member d ''detail'') (opt_member d ''message''))
              (JStr ''An error occurred'')"

definition sendMessage ::
  "(string \<Rightarrow> 'q \<Rightarrow> 'r axios_outcome) \<Rightarrow> 'q \<Rightarrow> 'q net_call list \<times> 'r completion" where
  \<comment> \<open>\<open>post\<close> is \<open>api.post\<close>; the first component lists the network calls made.  The
      request and the response body are of any type: neither is inspected.\<close>
  "sendMessage post request =
     ([POST ''/api/v1/chat'' request],
      (case post ''/api/v1/chat'' request of
         Fulfilled d \<Rightarrow> Returned d
       | RejectedResponse d \<Rightarrow>
           Threw \<lparr>err_detail = Some (server_detail d),
                  err_message = Some (server_detail d),
                  err_String = ''[object Object]''\<rparr>
       | RejectedNoResponse \<Rightarrow>
           Threw \<lparr>err_detail = None,
                  err_message =
                    Some (JStr ''No response from server. Please check your connection.''),
                  err_String = ''[object Object]''\<rparr>
       | RejectedOther e \<Rightarrow> Threw e))"

definition checkHealth ::
  "(string \<Rightarrow> json axios_outcome) \<Rightarrow> string \<Rightarrow> json option completion" where
  \<comment> \<open>\<open>get\<close> is \<open>api.get\<close>.  Reading \<open>healthy\<close> of a null body throws inside the
      \<open>try\<close>; of any other body it gives the value or \<open>undefined\<close>, which is returned as
      it is.\<close>
  "checkHealth get provider =
     (case get (''/api/v1/providers/'' @ provider @ ''/health'') of
        Fulfilled d \<Rightarrow>
          (case d of
             JNull \<Rightarrow> Returned (Some (JBool False))
           | _ \<Rightarrow> Returned (member d ''healthy''))
      | _ \<Rightarrow> Returned (Some (JBool False)))"

subsection \<open>Streaming\<close>


datatype callback = onChunk json | onComplete | onError string


record stream =
  closed :: bool  \<comment> \<open>\<open>eventSource.close()\<close> has been called\<close>
  calls :: "callback list"  \<comment> \<open>the calls of the callbacks, in order\<close>







definition stream_url :: "string \<Rightarrow> 'm ChatRequest \<Rightarrow> string" where
  "stream_url base request =
     base @ ''/api/v1/chat?provider='' @ req_provider request @ ''&stream=true''"





section \<open>Chat interface (components/ChatInterface.tsx)\<close>

record props =
  p_messages :: "Message list"
  p_provider :: string
  p_model :: string
  p_onArtifactGenerated :: bool  \<comment> \<open>whether the optional handler is supplied\<close>

record ui =
  input :: string
  isStreaming :: bool
  streamingContent :: string
  error :: "string option"

datatype effect =
    NewMessage Message
  | Net "WireMessage ChatRequest net_call"
  | ArtifactGenerated Artifact
  | Unhandled string  \<comment> \<open>an exception that leaves \<open>handleSend\<close>\<close>

definition artifact_of :: "date \<Rightarrow> string \<Rightarrow> Artifact option" where
  \<comment> \<open>Lines 82-93: the argument of \<open>onArtifactGenerated\<close>, if it is called.\<close>
  "artifact_of now content =
     (if includes_js content ''Dashboard'' \<or> includes_js content ''Report''
      then (let artifactType = (if includes_js content ''Dashboard'' then dashboard else report)
            in Some \<lparr>art_id = ''artifact-'' @ string_of_nat now,
                     art_title = (if includes_js content ''Dashboard''
                                  then ''Veeam Backup Dashboard''
                                  else ''Executive Backup Report''),
                     art_type = artifactType,
                     art_content = content,
                     art_preview = Some content,
                     art_code = None,
                     art_metadata = None\<rparr>)
      else None)"

definition errorMessage :: "js_error \<Rightarrow> json" where
  \<comment> \<open>\<open>error?.response?.data?.detail || error?.message || String(error)\<close>\<close>
  "errorMessage e = or_value (or_js (err_detail e) (err_message e)) (JStr (err_String e))"

definition displayed_error :: "string \<Rightarrow> string" where
  \<comment> \<open>Lines 100-109, for an \<open>errorMessage\<close> that is a string.\<close>
  "displayed_error m =
     (if includes_js (toLowerCase m) ''api key''
         \<or> includes_js (toLowerCase m) ''authentication''
         \<or> includes_js (toLowerCase m) ''unauthorized''
         \<or> includes_js (toLowerCase m) ''key is required''
      then ''API key not configured. Please configure your API key in Settings.''
      else ''Error: '' @ m)"

definition userMessage_of :: "(nat \<Rightarrow> date) \<Rightarrow> ui \<Rightarrow> Message" where
  \<comment> \<open>Lines 44-49.  \<open>now k\<close> is what the \<open>k\<close>-th reading of the clock returns.\<close>
  "userMessage_of now st =
     \<lparr>msg_id = ''msg-'' @ string_of_nat (now 0), msg_role = user,
      msg_content = trim (input st), msg_timestamp = now 1, msg_toolCalls = None\<rparr>"

definition chat_request :: "(nat \<Rightarrow> date) \<Rightarrow> props \<Rightarrow> ui \<Rightarrow> WireMessage ChatRequest" where
  \<comment> \<open>Lines 56 and 63-71: the argument of \<open>chatAPI.sendMessage\<close>.\<close>
  "chat_request now pr st =
     (let allMessages = p_messages pr @ [userMessage_of now st]
      in \<lparr>req_provider = p_provider pr,
          req_messages = map (\<lambda>m. \<lparr>wm_role = msg_role m, wm_content = msg_content m\<rparr>)
                             allMessages,
          req_model = Some (p_model pr),
          req_stream = Some False\<rparr>)"

definition handleSend ::
  "(nat \<Rightarrow> date) \<Rightarrow> (string \<Rightarrow> WireMessage ChatRequest \<Rightarrow> ChatResponse axios_outcome)
     \<Rightarrow> props \<Rightarrow> ui \<Rightarrow> effect list \<times> ui" where
  \<comment> \<open>The result is the calls made, in order, and the component state once the promise
      has settled.  In the \<open>catch\<close>, \<open>errorMessage.toLowerCase()\<close> throws when the
      message is not a string: \<open>setError\<close> is then not reached, and the error state is the
      \<open>null\<close> that the \<open>try\<close> has set.\<close>
  "handleSend now post pr st =
     (if trim (input st) = [] \<or> isStreaming st then ([], st)
      else
        (let userMessage = userMessage_of now st;
             (net, res) = sendMessage post (chat_request now pr st);
             settled = st\<lparr>input := [], isStreaming := False, streamingContent := []\<rparr>
         in (case res of
               Returned response \<Rightarrow>
                 (let assistantMessage =
                        \<lparr>msg_id = ''msg-'' @ string_of_nat (now 2), msg_role = assistant,
                         msg_content = resp_content response, msg_timestamp = now 3,
                         msg_toolCalls = None\<rparr>
                  in (NewMessage userMessage # map Net net @ [NewMessage assistantMessage]
                        @ (if p_onArtifactGenerated pr
                           then (case artifact_of (now 4) (resp_content response) of
                                   None \<Rightarrow> [] | Some a \<Rightarrow> [ArtifactGenerated a])
                           else []),
                      settled\<lparr>error := None\<rparr>))
             | Threw e \<Rightarrow>
                 (case errorMessage e of
                    JStr m \<Rightarrow>
                      (NewMessage userMessage # map Net net,
                       settled\<lparr>error := Some (displayed_error m)\<rparr>)
                  | _ \<Rightarrow>
                      (NewMessage userMessage # map Net net
                         @ [Unhandled ''errorMessage.toLowerCase is not a function''],
                       settled\<lparr>error := None\<rparr>)))))"


definition requests :: "effect list \<Rightarrow> WireMessage ChatRequest list" where
  \<comment> \<open>The chat requests sent.\<close>
  "requests es = concat (map (\<lambda>e. case e of Net (POST u r) \<Rightarrow> [r] | _ \<Rightarrow> []) es)"

section \<open>Provider statuses (components/Settings.tsx, App.tsx)\<close>


text \<open>What an operation does to the world outside the component state.\<close>

datatype side_effect = Fetch string | StorageWrite string string



record Settings =
  providerStatuses :: json  \<comment> \<open>what \<open>setProviderStatuses\<close> was given last\<close>
  loading :: bool
  mcpServers :: json




subsection \<open>The model list of the header (App.loadAvailableModels)\<close>









section \<open>MCP server dialog (components/MCPConfigDialog.tsx)\<close>

record MCPServerConfig =
  cfg_name :: string
  cfg_command :: string
  cfg_args :: "string list"
  cfg_env :: "(string \<rightharpoonup> string) option"

record env_row =
  key :: string
  val :: string

record dialog =
  d_name :: string
  d_command :: string
  d_args :: string
  d_envKeys :: "env_row list"

definition set_property ::
  "(string \<rightharpoonup> string) \<Rightarrow> string \<Rightarrow> string \<Rightarrow> (string \<rightharpoonup> string)" where
  \<comment> \<open>\<open>acc[k] = v\<close> on a plain object with a string value: assigning a string to
      \<open>__proto__\<close> creates no entry.\<close>
  "set_property acc k v = (if k = ''__proto__'' then acc else acc(k \<mapsto> v))"

definition env_of :: "env_row list \<Rightarrow> (string \<rightharpoonup> string)" where
  \<comment> \<open>The \<open>reduce\<close> of lines 69-74.\<close>
  "env_of rows =
     foldl (\<lambda>acc item. if trim (key item) \<noteq> []
                        then set_property acc (trim (key item)) (trim (val item))
                        else acc)
           Map.empty rows"

definition handleSave :: "dialog \<Rightarrow> MCPServerConfig option" where
  \<comment> \<open>\<open>Some config\<close>: \<open>onSave(config)\<close> is called; \<open>None\<close>: the alert is shown and
      \<open>onSave\<close> is not called.\<close>
  "handleSave d =
     (if trim (d_name d) = [] \<or> trim (d_command d) = [] then None
      else Some \<lparr>cfg_name = trim (d_name d),
                 cfg_command = trim (d_command d),
                 cfg_args = filter (\<lambda>arg. length arg > 0) (map trim (split_space (d_args d))),
                 cfg_env = (if length (d_envKeys d) > 0 then Some (env_of (d_envKeys d))
                            else None)\<rparr>)"

section \<open>Example values\<close>

definition example_chats :: "Chat list" where
  "example_chats =
     [\<lparr>chat_id = ''1'', chat_title = ''New Chat'', chat_createdAt = 10, chat_updatedAt = 10,
       chat_messages = []\<rparr>,
      \<lparr>chat_id = ''2'', chat_title = ''Repository Storage Capacity'', chat_createdAt = 5,
       chat_updatedAt = 5, chat_messages = []\<rparr>]"

definition example_app :: App where
  "example_app =
     \<lparr>chats = example_chats, activeChatId = Some ''1'', currentChat = Some (hd example_chats),
      selectedProvider = Some (JStr ''openai''), selectedModel = Some (JStr ''gpt-4''),
      availableProviders = [], artifact = None, darkMode = False, showSettings = False,
      availableModels = [], activeNav = chats_nav\<rparr>"

definition example_message :: "role \<Rightarrow> string \<Rightarrow> Message" where
  "example_message r c =
     \<lparr>msg_id = ''msg-20'', msg_role = r, msg_content = c, msg_timestamp = 20,
      msg_toolCalls = None\<rparr>"

definition chat_summary :: "Chat \<Rightarrow> string \<times> string list" where
  \<comment> \<open>The title of a chat and the contents of its messages.\<close>
  "chat_summary c = (chat_title c, map msg_content (chat_messages c))"

definition example_response :: "string \<Rightarrow> ChatResponse" where
  "example_response c =
     \<lparr>resp_content = c, resp_model = ''gpt-4'', resp_finish_reason = Some ''stop'',
      resp_usage = None, resp_tool_calls = None\<rparr>"

definition ok_backend ::
  "string \<Rightarrow> string \<Rightarrow> WireMessage ChatRequest \<Rightarrow> ChatResponse axios_outcome" where
  \<comment> \<open>A backend that answers every request with the given content.\<close>
  "ok_backend c url request = Fulfilled (example_response c)"

definition rejecting_backend ::
  "json option \<Rightarrow> string \<Rightarrow> WireMessage ChatRequest \<Rightarrow> ChatResponse axios_outcome" where
  \<comment> \<open>A backend that answers every request with an error status and the given body.\<close>
  "rejecting_backend body url request = RejectedResponse body"

definition silent_backend ::
  "string \<Rightarrow> WireMessage ChatRequest \<Rightarrow> ChatResponse axios_outcome" where
  \<comment> \<open>A backend that never answers.\<close>
  "silent_backend url request = RejectedNoResponse"



definition validation_detail :: json where
  \<comment> \<open>A detail that is a list, as a validation failure is reported.\<close>
  "validation_detail =
     JArr [JObj [(''loc'', JArr [JStr ''body'', JStr ''provider'']),
                 (''msg'', JStr ''field required'')]]"

definition validation_error :: json where
  "validation_error = JObj [(''detail'', validation_detail)]"

definition example_props :: props where
  "example_props =
     \<lparr>p_messages = [], p_provider = ''openai'', p_model = ''gpt-4'',
      p_onArtifactGenerated = True\<rparr>"

definition example_ui :: "string \<Rightarrow> ui" where
  "example_ui s = \<lparr>input = s, isStreaming = False, streamingContent = [], error = None\<rparr>"

definition example_clock :: "nat \<Rightarrow> date" where
  "example_clock k = 1700 + k"


definition empty_request :: "WireMessage ChatRequest" where
  "empty_request =
     \<lparr>req_provider = ''openai'', req_messages = [], req_model = Some ''gpt-4'',
      req_stream = Some False\<rparr>"

definition healthy_get :: "json \<Rightarrow> string \<Rightarrow> json axios_outcome" where
  \<comment> \<open>A backend whose health endpoint answers with the given body.\<close>
  "healthy_get body url = Fulfilled body"

definition unreachable_get :: "string \<Rightarrow> json axios_outcome" where
  \<comment> \<open>A simulated network failure.\<close>
  "unreachable_get url = RejectedNoResponse"

definition unauthorized_get :: "string \<Rightarrow> json axios_outcome" where
  \<comment> \<open>A backend that answers with an error status and a detail text.\<close>
  "unauthorized_get url = RejectedResponse (Some (JObj [(''detail'', JStr ''Invalid API key'')]))"



definition example_dialog :: dialog where
  "example_dialog =
     \<lparr>d_name = '' veeam '', d_command = ''npx'', d_args = ''-y  @veeam/mcp '',
      d_envKeys = [\<lparr>key = '' API_URL '', val = '' http://vbr:9419 ''\<rparr>,
                   \<lparr>key = ''  '', val = ''dropped''\<rparr>]\<rparr>"







section \<open>Helper lemmas\<close>

lemma substring_0: "substring s 0 n = take n s"
  by (simp add: substring_def Let_def min_def)

lemma sendMessage_net: "fst (sendMessage post request) = [POST ''/api/v1/chat'' request]"
  by (simp add: sendMessage_def)

lemma handleSend_early:
  "trim (input st) = [] \<or> isStreaming st \<Longrightarrow> handleSend now post pr st = ([], st)"
  by (simp add: handleSend_def)

lemma handleSend_Returned:
  assumes "trim (input st) \<noteq> []" and "\<not> isStreaming st"
    and "snd (sendMessage post (chat_request now pr st)) = Returned response"
  shows "handleSend now post pr st =
           (NewMessage (userMessage_of now st)
              # Net (POST ''/api/v1/chat'' (chat_request now pr st))
              # NewMessage \<lparr>msg_id = ''msg-'' @ string_of_nat (now 2), msg_role = assistant,
                              msg_content = resp_content response, msg_timestamp = now 3,
                              msg_toolCalls = None\<rparr>
              # (if p_onArtifactGenerated pr
                 then (case artifact_of (now 4) (resp_content response) of
                         None \<Rightarrow> [] | Some a \<Rightarrow> [ArtifactGenerated a])
                 else []),
            st\<lparr>input := [], isStreaming := False, streamingContent := [], error := None\<rparr>)"
proof -
  have "sendMessage post (chat_request now pr st)
          = ([POST ''/api/v1/chat'' (chat_request now pr st)], Returned response)"
    using assms(3) sendMessage_net [of post "chat_request now pr st"]
    by (cases "sendMessage post (chat_request now pr st)") simp
  then show ?thesis
    using assms(1,2) by (simp add: handleSend_def Let_def)
qed

lemma handleSend_Threw:
  assumes "trim (input st) \<noteq> []" and "\<not> isStreaming st"
    and "snd (sendMessage post (chat_request now pr st)) = Threw e"
  shows "handleSend now post pr st =
           (case errorMessage e of
              JStr m \<Rightarrow>
                ([NewMessage (userMessage_of now st),
                  Net (POST ''/api/v1/chat'' (chat_request now pr st))],
                 st\<lparr>input := [], isStreaming := False, streamingContent := [],
                    error := Some (displayed_error m)\<rparr>)
            | _ \<Rightarrow>
                ([NewMessage (userMessage_of now st),
                  Net (POST ''/api/v1/chat'' (chat_request now pr st)),
                  Unhandled ''errorMessage.toLowerCase is not a function''],
                 st\<lparr>input := [], isStreaming := False, streamingContent := [],
                    error := None\<rparr>))"
proof -
  have "sendMessage post (chat_request now pr st)
          = ([POST ''/api/v1/chat'' (chat_request now pr st)], Threw e)"
    using assms(3) sendMessage_net [of post "chat_request now pr st"]
    by (cases "sendMessage post (chat_request now pr st)") simp
  then show ?thesis
    using assms(1,2) by (cases "errorMessage e") (simp_all add: handleSend_def Let_def)
qed

lemma requests_simps:
  "requests [] = []"
  "requests (NewMessage m # es) = requests es"
  "requests (Net (POST u r) # es) = r # requests es"
  "requests (Net (GET u) # es) = requests es"
  "requests (ArtifactGenerated a # es) = requests es"
  "requests (Unhandled x # es) = requests es"
  by (simp_all add: requests_def)

lemma handleSend_Threw_requests:
  assumes "trim (input st) \<noteq> []" and "\<not> isStreaming st"
    and "snd (sendMessage post (chat_request now pr st)) = Threw e"
  shows "requests (fst (handleSend now post pr st)) = [chat_request now pr st]"
  using handleSend_Threw [OF assms]
  by (cases "errorMessage e") (simp_all add: requests_simps)

text \<open>When the extracted message is a text, the display is decided by its lower-case form.\<close>

lemma handleSend_error_text:
  assumes "trim (input st) \<noteq> []" and "\<not> isStreaming st"
    and "snd (sendMessage post (chat_request now pr st)) = Threw e"
    and "errorMessage e = JStr m"
  shows "error (snd (handleSend now post pr st))
           = Some (if includes_js (toLowerCase m) ''api key''
                      \<or> includes_js (toLowerCase m) ''authentication''
                      \<or> includes_js (toLowerCase m) ''unauthorized''
                      \<or> includes_js (toLowerCase m) ''key is required''
                   then ''API key not configured. Please configure your API key in Settings.''
                   else ''Error: '' @ m)"
  using handleSend_Threw [OF assms(1,2,3)] assms(4) by (simp add: displayed_error_def)

text \<open>
  Called in the render it belongs to, \<open>handleNewMessage\<close> appends at the end and renames
  only a \<open>New Chat\<close> on a user message.
\<close>

lemma handleNewMessage_same_render:
  assumes "currentChat st = Some cur"
  shows "\<exists>upd. currentChat (handleNewMessage now m st st) = Some upd
           \<and> chat_messages upd = chat_messages cur @ [m]
           \<and> chat_title upd =
               (if chat_title cur = ''New Chat'' \<and> msg_role m = user
                then take 50 (msg_content m)
                     @ (if 50 < length (msg_content m) then ''...'' else [])
                else chat_title cur)"
  using assms by (simp add: handleNewMessage_def new_title_def substring_0 Let_def)







lemma trim_empty_iff: "trim s = [] \<longleftrightarrow> (\<forall>c\<in>set s. isWhiteSpace c)"
proof -
  have "trim s = [] \<longleftrightarrow> (\<forall>c\<in>set (dropWhile isWhiteSpace s). isWhiteSpace c)"
    by (simp add: trim_def dropWhile_eq_Nil_conv)
  also have "\<dots> \<longleftrightarrow> dropWhile isWhiteSpace s = []"
  proof
    assume all: "\<forall>c\<in>set (dropWhile isWhiteSpace s). isWhiteSpace c"
    show "dropWhile isWhiteSpace s = []"
    proof (rule ccontr)
      assume ne: "dropWhile isWhiteSpace s \<noteq> []"
      then have "\<not> isWhiteSpace (hd (dropWhile isWhiteSpace s))"
        by (rule hd_dropWhile)
      moreover from ne have "hd (dropWhile isWhiteSpace s) \<in> set (dropWhile isWhiteSpace s)"
        by simp
      ultimately show False using all by blast
    qed
  next
    assume "dropWhile isWhiteSpace s = []"
    then show "\<forall>c\<in>set (dropWhile isWhiteSpace s). isWhiteSpace c"
      by (simp del: dropWhile_eq_Nil_conv)
  qed
  also have "\<dots> \<longleftrightarrow> (\<forall>c\<in>set s. isWhiteSpace c)"
    by (rule dropWhile_eq_Nil_conv)
  finally show ?thesis .
qed



lemma split_space_nonempty: "split_space s \<noteq> []"
  by (induction s) (auto split: list.splits)

lemma join_split_space: "join '' '' (split_space s) = s"
proof (induction s)
  case Nil
  show ?case by simp
next
  case (Cons c cs)
  obtain t ts where sp: "split_space cs = t # ts"
    using split_space_nonempty [of cs] by (cases "split_space cs") auto
  show ?case
  proof (cases "c = CHR '' ''")
    case True
    then show ?thesis using Cons sp by simp
  next
    case False
    then show ?thesis using Cons sp by (cases ts) simp_all
  qed
qed

lemma split_space_no_space: "t \<in> set (split_space s) \<Longrightarrow> CHR '' '' \<notin> set t"
proof (induction s arbitrary: t)
  case Nil
  then show ?case by simp
next
  case (Cons c cs)
  obtain u us where sp: "split_space cs = u # us"
    using split_space_nonempty [of cs] by (cases "split_space cs") auto
  show ?case
  proof (cases "c = CHR '' ''")
    case True
    then show ?thesis using Cons by auto
  next
    case False
    then have "t = c # u \<or> t \<in> set us"
      using Cons.prems sp by simp
    moreover have "CHR '' '' \<notin> set u" and "\<And>x. x \<in> set us \<Longrightarrow> CHR '' '' \<notin> set x"
      using Cons.IH sp by simp_all
    ultimately show ?thesis using False by auto
  qed
qed

lemma env_fold_entries:
  "foldl (\<lambda>acc item. if trim (key item) \<noteq> []
                       then set_property acc (trim (key item)) (trim (val item))
                       else acc) acc rows k = Some v
   \<Longrightarrow> acc k = Some v
       \<or> (k \<noteq> [] \<and> (\<exists>row\<in>set rows. trim (key row) = k \<and> trim (val row) = v))"
proof (induction rows arbitrary: acc)
  case Nil
  then show ?case by simp
next
  case (Cons r rows)
  let ?acc' = "if trim (key r) \<noteq> [] then set_property acc (trim (key r)) (trim (val r))
               else acc"
  from Cons.prems have "?acc' k = Some v
       \<or> (k \<noteq> [] \<and> (\<exists>row\<in>set rows. trim (key row) = k \<and> trim (val row) = v))"
    using Cons.IH [of ?acc'] by simp
  then show ?case
  proof
    assume "?acc' k = Some v"
    then show ?thesis
      by (auto simp add: set_property_def split: if_splits)
  next
    assume "k \<noteq> [] \<and> (\<exists>row\<in>set rows. trim (key row) = k \<and> trim (val row) = v)"
    then show ?thesis by auto
  qed
qed

lemma env_of_entries:
  "env_of rows k = Some v
   \<Longrightarrow> k \<noteq> [] \<and> (\<exists>row\<in>set rows. trim (key row) = k \<and> trim (val row) = v)"
  using env_fold_entries [of Map.empty rows k v] by (simp add: env_of_def)






section \<open>Deleting a chat\<close>

text \<open>
  C10.  Deleting a chat by id keeps exactly the chats with another id, in their order
  and unchanged; the active-chat selection and the current chat are reset exactly when
  the deleted id is the active one and are left as they were otherwise; every other
  field of the application state is untouched.
\<close>

theorem handleDeleteChat_frame:
  "chats (handleDeleteChat chatId st) = filter (\<lambda>c. chat_id c \<noteq> chatId) (chats st)
   \<and> subseq (chats (handleDeleteChat chatId st)) (chats st)
   \<and> set (chats (handleDeleteChat chatId st)) = {c \<in> set (chats st). chat_id c \<noteq> chatId}
   \<and> (activeChatId st = Some chatId \<longrightarrow>
        activeChatId (handleDeleteChat chatId st) = None
        \<and> currentChat (handleDeleteChat chatId st) = None)
   \<and> (activeChatId st \<noteq> Some chatId \<longrightarrow>
        activeChatId (handleDeleteChat chatId st) = activeChatId st
        \<and> currentChat (handleDeleteChat chatId st) = currentChat st)
   \<and> (handleDeleteChat chatId st)
        \<lparr>chats := chats st, activeChatId := activeChatId st, currentChat := currentChat st\<rparr>
      = st"
  by (simp add: handleDeleteChat_def Let_def)

theorem handleDeleteChat_frame_witness:
  "activeChatId example_app = Some ''1''
   \<and> activeChatId example_app \<noteq> Some ''2''
   \<and> map chat_id (chats (handleDeleteChat ''1'' example_app)) = [''2'']
   \<and> activeChatId (handleDeleteChat ''1'' example_app) = None
   \<and> currentChat (handleDeleteChat ''1'' example_app) = None
   \<and> map chat_id (chats (handleDeleteChat ''2'' example_app)) = [''1'']
   \<and> activeChatId (handleDeleteChat ''2'' example_app) = Some ''1''
   \<and> currentChat (handleDeleteChat ''2'' example_app) = currentChat example_app"
  using handleDeleteChat_frame [of "''1''" example_app]
        handleDeleteChat_frame [of "''2''" example_app]
  by (simp add: example_app_def example_chats_def)

section \<open>Appending a message\<close>

text \<open>
  C8.  The claim: a message appended by \<open>handleNewMessage\<close> goes to the end of the
  chat's list, the earlier messages staying, and the title changes only for a \<open>New Chat\<close>
  on a user message.  On an answered send the code does otherwise.  With a new chat
  current, the user sends \<open>hello\<close> and the answer is \<open>Hi there!\<close>: after the first append
  the chat is titled \<open>hello\<close> and holds \<open>hello\<close>; the second append, made through the
  closure of the render before the send, leaves the chat titled \<open>New Chat\<close> and holding
  the answer alone, as current chat and in the list of chats.
\<close>

theorem handleNewMessage_stale_closure:
  "map_option chat_summary
     (currentChat (handleNewMessage 21 (example_message user ''hello'') example_app example_app))
     = Some (''hello'', [''hello''])
   \<and> map_option chat_summary
       (currentChat (answered_send 21 22 (example_message user ''hello'')
                       (example_message assistant ''Hi there!'') example_app))
     = Some (''New Chat'', [''Hi there!''])
   \<and> map chat_summary
       (chats (answered_send 21 22 (example_message user ''hello'')
                 (example_message assistant ''Hi there!'') example_app))
     = [(''New Chat'', [''Hi there!'']), (''Repository Storage Capacity'', [])]"
  by (simp add: answered_send_def handleNewMessage_def new_title_def substring_0 Let_def
        example_app_def example_chats_def example_message_def chat_summary_def)

section \<open>Artifacts from a chat response\<close>



section \<open>Errors of a chat call\<close>

text \<open>
  C2.  The claim: whatever error the chat call raises, the UI shows either the request to
  configure the API key or \<open>Error: \<close> followed by the message.  The code does so when the
  extracted message is a text.  When the server answers with an error whose detail is not
  a text, here the list of a validation failure, \<open>sendMessage\<close> passes the list on, the
  \<open>catch\<close> of \<open>handleSend\<close> takes it as the message and fails on \<open>toLowerCase\<close>: the
  exception leaves \<open>handleSend\<close> and no error is shown.
\<close>

theorem handleSend_nontext_detail:
  "snd (sendMessage (rejecting_backend (Some validation_error))
          (chat_request example_clock example_props (example_ui ''hello'')))
     = Threw \<lparr>err_detail = Some validation_detail, err_message = Some validation_detail,
               err_String = ''[object Object]''\<rparr>
   \<and> errorMessage \<lparr>err_detail = Some validation_detail, err_message = Some validation_detail,
                    err_String = ''[object Object]''\<rparr> = validation_detail
   \<and> handleSend example_clock (rejecting_backend (Some validation_error)) example_props
         (example_ui ''hello'')
     = ([NewMessage (userMessage_of example_clock (example_ui ''hello'')),
         Net (POST ''/api/v1/chat''
                (chat_request example_clock example_props (example_ui ''hello''))),
         Unhandled ''errorMessage.toLowerCase is not a function''],
        \<lparr>input = [], isStreaming = False, streamingContent = [], error = None\<rparr>)"
proof -
  let ?st = "example_ui ''hello''"
  let ?e = "\<lparr>err_detail = Some validation_detail, err_message = Some validation_detail,
             err_String = ''[object Object]''\<rparr>"
  have sd: "server_detail (Some validation_error) = validation_detail"
    by (simp add: server_detail_def or_value_def or_js_def opt_member_def truthy_def
          validation_error_def validation_detail_def)
  have thrown: "snd (sendMessage (rejecting_backend (Some validation_error))
                       (chat_request example_clock example_props ?st)) = Threw ?e"
    by (simp add: sendMessage_def rejecting_backend_def sd)
  have msg: "errorMessage ?e = validation_detail"
    by (simp add: errorMessage_def or_value_def or_js_def truthy_def validation_detail_def)
  have h1: "trim (input ?st) \<noteq> []"
    by (simp add: example_ui_def trim_def isWhiteSpace_def)
  have h2: "\<not> isStreaming ?st"
    by (simp add: example_ui_def)
  have run: "handleSend example_clock (rejecting_backend (Some validation_error)) example_props ?st
     = ([NewMessage (userMessage_of example_clock ?st),
         Net (POST ''/api/v1/chat'' (chat_request example_clock example_props ?st)),
         Unhandled ''errorMessage.toLowerCase is not a function''],
        \<lparr>input = [], isStreaming = False, streamingContent = [], error = None\<rparr>)"
    unfolding handleSend_Threw [OF h1 h2 thrown] msg
    by (simp add: validation_detail_def example_ui_def)
  show ?thesis
    using thrown msg run by simp
qed

section \<open>Empty messages\<close>

text \<open>
  C3, as the code has it.  \<open>sendMessage\<close> posts whatever request it is given.  The guard
  is in \<open>handleSend\<close>: on an input that is empty or consists of white space it makes no
  call and leaves the state as it is, and every request it sends has a messages list that
  is not empty and ends with the user's trimmed, non-empty input.
\<close>

theorem handleSend_guard:
  "((\<forall>c\<in>set (input st). isWhiteSpace c) \<longrightarrow> handleSend now post pr st = ([], st))
   \<and> (\<forall>r\<in>set (requests (fst (handleSend now post pr st))).
         req_messages r \<noteq> []
         \<and> last (req_messages r) = \<lparr>wm_role = user, wm_content = trim (input st)\<rparr>
         \<and> trim (input st) \<noteq> [])
   \<and> fst (sendMessage post request) = [POST ''/api/v1/chat'' request]"
proof -
  have early: "(\<forall>c\<in>set (input st). isWhiteSpace c) \<longrightarrow> handleSend now post pr st = ([], st)"
    using handleSend_early [of st now post pr] by (simp add: trim_empty_iff)
  have reqs: "\<forall>r\<in>set (requests (fst (handleSend now post pr st))).
         req_messages r \<noteq> []
         \<and> last (req_messages r) = \<lparr>wm_role = user, wm_content = trim (input st)\<rparr>
         \<and> trim (input st) \<noteq> []"
  proof (cases "trim (input st) = [] \<or> isStreaming st")
    case True
    then show ?thesis
      using handleSend_early [of st now post pr] by (simp add: requests_simps)
  next
    case False
    then have ne: "trim (input st) \<noteq> []" and ns: "\<not> isStreaming st" by simp_all
    have rq: "requests (fst (handleSend now post pr st)) = [chat_request now pr st]"
    proof (cases "snd (sendMessage post (chat_request now pr st))")
      case (Returned response)
      show ?thesis
        using handleSend_Returned [OF ne ns Returned]
        by (simp add: requests_simps split: option.splits)
    next
      case (Threw e)
      show ?thesis
        by (rule handleSend_Threw_requests [OF ne ns Threw])
    qed
    show ?thesis
      using ne by (simp add: rq chat_request_def userMessage_of_def Let_def)
  qed
  have net: "fst (sendMessage post request) = [POST ''/api/v1/chat'' request]"
    by (rule sendMessage_net)
  from early reqs net show ?thesis by blast
qed

theorem handleSend_guard_witness:
  "list_all isWhiteSpace (input (example_ui ''   ''))
   \<and> handleSend example_clock (ok_backend ''Hi there!'') example_props (example_ui ''   '')
       = ([], example_ui ''   '')
   \<and> requests (fst (handleSend example_clock (ok_backend ''Hi there!'') example_props
                         (example_ui ''hello'')))
       = [chat_request example_clock example_props (example_ui ''hello'')]
   \<and> last (req_messages (chat_request example_clock example_props (example_ui ''hello'')))
       = \<lparr>wm_role = user, wm_content = ''hello''\<rparr>"
proof -
  let ?b = "ok_backend ''Hi there!''"
  have ws: "\<forall>c\<in>set (input (example_ui ''   '')). isWhiteSpace c"
    by (simp add: example_ui_def isWhiteSpace_def)
  have a: "handleSend example_clock ?b example_props (example_ui ''   '')
             = ([], example_ui ''   '')"
    using handleSend_guard [where st = "example_ui ''   ''" and now = example_clock
            and post = ?b and pr = example_props] ws
    by blast
  have h1: "trim (input (example_ui ''hello'')) \<noteq> []"
    by (simp add: example_ui_def trim_def isWhiteSpace_def)
  have h2: "\<not> isStreaming (example_ui ''hello'')"
    by (simp add: example_ui_def)
  have h3: "snd (sendMessage ?b (chat_request example_clock example_props (example_ui ''hello'')))
              = Returned (example_response ''Hi there!'')"
    by (simp add: sendMessage_def ok_backend_def)
  have rq: "requests (fst (handleSend example_clock ?b example_props (example_ui ''hello'')))
              = [chat_request example_clock example_props (example_ui ''hello'')]"
    by (simp add: handleSend_Returned [OF h1 h2 h3] requests_simps split: option.splits)
  have tr: "trim (input (example_ui ''hello'')) = ''hello''"
    by (simp add: example_ui_def trim_def isWhiteSpace_def)
  have b: "last (req_messages (chat_request example_clock example_props (example_ui ''hello'')))
             = \<lparr>wm_role = user, wm_content = ''hello''\<rparr>"
    using handleSend_guard [where st = "example_ui ''hello''" and now = example_clock
            and post = ?b and pr = example_props] rq tr
    by simp
  have ws': "list_all isWhiteSpace (input (example_ui ''   ''))"
    using ws by (simp add: list_all_iff)
  show ?thesis using ws' a rq b by blast
qed

text \<open>
  An empty messages list given to \<open>sendMessage\<close> is posted like any other, and the call
  succeeds when the server answers.
\<close>

theorem sendMessage_empty_counterexample:
  "req_messages empty_request = []
   \<and> sendMessage (ok_backend ''Hi there!'') empty_request
       = ([POST ''/api/v1/chat'' empty_request], Returned (example_response ''Hi there!''))"
  by (simp add: sendMessage_def ok_backend_def empty_request_def)

section \<open>The chat endpoint at the client\<close>




section \<open>Health check\<close>

text \<open>
  C4, as the code has it.  \<open>checkHealth\<close> never throws: whatever the request does, it
  returns a value.  When the request is fulfilled with a body that is not null, the value
  is the \<open>healthy\<close> field of the body as it arrived, unchecked: the boolean if the server
  sent one, \<open>undefined\<close> if the field is missing.  When the body is null, and on every
  failure of the request, the value is \<open>false\<close>: the error of a failed request is dropped.
\<close>

theorem checkHealth_total:
  "(\<exists>v. checkHealth get provider = Returned v)
   \<and> (\<forall>d. get (''/api/v1/providers/'' @ provider @ ''/health'') = Fulfilled d \<and> d \<noteq> JNull \<longrightarrow>
          checkHealth get provider = Returned (member d ''healthy''))
   \<and> (\<forall>d b. get (''/api/v1/providers/'' @ provider @ ''/health'') = Fulfilled d
            \<and> member d ''healthy'' = Some (JBool b) \<longrightarrow>
          checkHealth get provider = Returned (Some (JBool b)))
   \<and> (get (''/api/v1/providers/'' @ provider @ ''/health'') = Fulfilled JNull \<longrightarrow>
          checkHealth get provider = Returned (Some (JBool False)))
   \<and> ((\<forall>d. get (''/api/v1/providers/'' @ provider @ ''/health'') \<noteq> Fulfilled d) \<longrightarrow>
          checkHealth get provider = Returned (Some (JBool False)))"
proof -
  let ?url = "''/api/v1/providers/'' @ provider @ ''/health''"
  have total: "\<exists>v. checkHealth get provider = Returned v"
    by (cases "get ?url") (auto simp add: checkHealth_def split: json.splits)
  have field: "\<forall>d. get ?url = Fulfilled d \<and> d \<noteq> JNull \<longrightarrow>
          checkHealth get provider = Returned (member d ''healthy'')"
    by (auto simp add: checkHealth_def split: json.splits)
  have flag: "\<forall>d b. get ?url = Fulfilled d \<and> member d ''healthy'' = Some (JBool b) \<longrightarrow>
          checkHealth get provider = Returned (Some (JBool b))"
    by (auto simp add: checkHealth_def split: json.splits)
  have null: "get ?url = Fulfilled JNull \<longrightarrow>
          checkHealth get provider = Returned (Some (JBool False))"
    by (simp add: checkHealth_def)
  have failed: "(\<forall>d. get ?url \<noteq> Fulfilled d) \<longrightarrow>
          checkHealth get provider = Returned (Some (JBool False))"
    by (cases "get ?url") (auto simp add: checkHealth_def)
  show ?thesis
    using total field flag null failed by blast
qed

theorem checkHealth_total_witness:
  "healthy_get (JObj [(''healthy'', JBool True)]) (''/api/v1/providers/'' @ ''openai'' @ ''/health'')
     = Fulfilled (JObj [(''healthy'', JBool True)])
   \<and> checkHealth (healthy_get (JObj [(''healthy'', JBool True)])) ''openai''
       = Returned (Some (JBool True))
   \<and> checkHealth (healthy_get (JObj [(''healthy'', JBool False)])) ''openai''
       = Returned (Some (JBool False))
   \<and> checkHealth (healthy_get JNull) ''openai'' = Returned (Some (JBool False))
   \<and> unreachable_get (''/api/v1/providers/'' @ ''openai'' @ ''/health'') = RejectedNoResponse
   \<and> checkHealth unreachable_get ''openai'' = Returned (Some (JBool False))"
proof -
  let ?url = "''/api/v1/providers/'' @ ''openai'' @ ''/health''"
  have f: "healthy_get body ?url = Fulfilled body" for body
    by (simp add: healthy_get_def)
  have u: "unreachable_get ?url = RejectedNoResponse"
    by (simp add: unreachable_get_def)
  have a: "checkHealth (healthy_get (JObj [(''healthy'', JBool h)])) ''openai''
             = Returned (Some (JBool h))" for h
  proof -
    have m: "member (JObj [(''healthy'', JBool h)]) ''healthy'' = Some (JBool h)"
      by simp
    show ?thesis
      using checkHealth_total [of "healthy_get (JObj [(''healthy'', JBool h)])" "''openai''"]
            f [of "JObj [(''healthy'', JBool h)]"] m
      by blast
  qed
  have n: "checkHealth (healthy_get JNull) ''openai'' = Returned (Some (JBool False))"
    using checkHealth_total [of "healthy_get JNull" "''openai''"] f [of JNull] by blast
  have nf: "\<forall>d. unreachable_get ?url \<noteq> Fulfilled d"
    using u by simp
  have b: "checkHealth unreachable_get ''openai'' = Returned (Some (JBool False))"
    using checkHealth_total [of unreachable_get "''openai''"] nf by blast
  show ?thesis
    using f [of "JObj [(''healthy'', JBool True)]"] a [of True] a [of False] n u b by blast
qed

text \<open>
  A network failure and an error answer with a detail text give the same result, which
  holds no error text.  And a success answer without the field, or with a text in it,
  gives \<open>undefined\<close>, or the text: not a boolean.
\<close>

theorem checkHealth_error_counterexample:
  "unreachable_get (''/api/v1/providers/'' @ ''openai'' @ ''/health'')
     \<noteq> unauthorized_get (''/api/v1/providers/'' @ ''openai'' @ ''/health'')
   \<and> checkHealth unreachable_get ''openai'' = Returned (Some (JBool False))
   \<and> checkHealth unauthorized_get ''openai'' = Returned (Some (JBool False))
   \<and> checkHealth (healthy_get (JObj [(''status'', JStr ''ok'')])) ''openai'' = Returned None
   \<and> checkHealth (healthy_get (JObj [(''healthy'', JStr ''no'')])) ''openai''
       = Returned (Some (JStr ''no''))"
  by (simp add: checkHealth_def unreachable_get_def unauthorized_get_def healthy_get_def)

section \<open>End of a stream\<close>




section \<open>Saving an MCP server configuration\<close>

text \<open>
  C9.  \<open>handleSave\<close> refuses to save (it does not call \<open>onSave\<close>) exactly when the
  name or the command is blank after trimming.  Otherwise the saved name and command are
  the trimmed inputs; the saved arguments are the trimmed tokens of the arguments input,
  split at spaces, that are not empty, so no argument is the empty string; the environment
  is left out exactly when there are no rows, and when present each of its entries comes
  from a row: the key is the row's trimmed key and is not empty, the value is the row's
  trimmed value.
\<close>

theorem handleSave_config:
  "(handleSave d = None \<longleftrightarrow> trim (d_name d) = [] \<or> trim (d_command d) = [])
   \<and> (\<forall>cfg. handleSave d = Some cfg \<longrightarrow>
          cfg_name cfg = trim (d_name d)
          \<and> cfg_command cfg = trim (d_command d)
          \<and> cfg_args cfg = filter (\<lambda>arg. arg \<noteq> []) (map trim (split_space (d_args d)))
          \<and> [] \<notin> set (cfg_args cfg)
          \<and> (cfg_env cfg = None \<longleftrightarrow> d_envKeys d = [])
          \<and> (\<forall>m k v. cfg_env cfg = Some m \<and> m k = Some v \<longrightarrow>
                 k \<noteq> []
                 \<and> (\<exists>row\<in>set (d_envKeys d). trim (key row) = k \<and> trim (val row) = v)))
   \<and> join '' '' (split_space (d_args d)) = d_args d
   \<and> (\<forall>t\<in>set (split_space (d_args d)). CHR '' '' \<notin> set t)"
proof -
  have refuse: "handleSave d = None \<longleftrightarrow> trim (d_name d) = [] \<or> trim (d_command d) = []"
    by (simp add: handleSave_def)
  have saved: "cfg_name cfg = trim (d_name d)
          \<and> cfg_command cfg = trim (d_command d)
          \<and> cfg_args cfg = filter (\<lambda>arg. arg \<noteq> []) (map trim (split_space (d_args d)))
          \<and> [] \<notin> set (cfg_args cfg)
          \<and> (cfg_env cfg = None \<longleftrightarrow> d_envKeys d = [])
          \<and> (\<forall>m k v. cfg_env cfg = Some m \<and> m k = Some v \<longrightarrow>
                 k \<noteq> []
                 \<and> (\<exists>row\<in>set (d_envKeys d). trim (key row) = k \<and> trim (val row) = v))"
    if "handleSave d = Some cfg" for cfg
  proof -
    from that have cfg: "cfg = \<lparr>cfg_name = trim (d_name d),
                 cfg_command = trim (d_command d),
                 cfg_args = filter (\<lambda>arg. length arg > 0) (map trim (split_space (d_args d))),
                 cfg_env = (if length (d_envKeys d) > 0 then Some (env_of (d_envKeys d))
                            else None)\<rparr>"
      by (simp add: handleSave_def split: if_splits)
    have env: "k \<noteq> [] \<and> (\<exists>row\<in>set (d_envKeys d). trim (key row) = k \<and> trim (val row) = v)"
      if "cfg_env cfg = Some m" and "m k = Some v" for m k v
    proof -
      from that(1) have "m = env_of (d_envKeys d)"
        by (simp add: cfg split: if_splits)
      with that(2) show ?thesis
        using env_of_entries [of "d_envKeys d" k v] by simp
    qed
    show ?thesis
      using env by (simp add: cfg)
  qed
  show ?thesis
    using refuse saved join_split_space [of "d_args d"] split_space_no_space [of _ "d_args d"]
    by blast
qed

theorem handleSave_config_witness:
  "handleSave (example_dialog\<lparr>d_name := ''   ''\<rparr>) = None
   \<and> (\<exists>cfg. handleSave example_dialog = Some cfg
          \<and> cfg_name cfg = ''veeam''
          \<and> cfg_command cfg = ''npx''
          \<and> cfg_args cfg = [''-y'', ''@veeam/mcp'']
          \<and> (\<exists>m. cfg_env cfg = Some m \<and> m ''API_URL'' = Some ''http://vbr:9419''
                  \<and> m [] = None))
   \<and> (\<exists>cfg. handleSave (example_dialog\<lparr>d_envKeys := []\<rparr>) = Some cfg \<and> cfg_env cfg = None)"
proof -
  have blank: "trim (d_name (example_dialog\<lparr>d_name := ''   ''\<rparr>)) = []"
    by (simp add: trim_def isWhiteSpace_def)
  have a: "handleSave (example_dialog\<lparr>d_name := ''   ''\<rparr>) = None"
    using handleSave_config [of "example_dialog\<lparr>d_name := ''   ''\<rparr>"] blank by blast
  have tn: "trim (d_name example_dialog) = ''veeam''"
    by (simp add: example_dialog_def trim_def isWhiteSpace_def)
  have tc: "trim (d_command example_dialog) = ''npx''"
    by (simp add: example_dialog_def trim_def isWhiteSpace_def)
  have ta: "filter (\<lambda>arg. arg \<noteq> []) (map trim (split_space (d_args example_dialog)))
              = [''-y'', ''@veeam/mcp'']"
    by (simp add: example_dialog_def trim_def isWhiteSpace_def)
  obtain cfg where cfg: "handleSave example_dialog = Some cfg"
    using handleSave_config [of example_dialog] tn tc by (cases "handleSave example_dialog") auto
  have env: "cfg_env cfg = Some (env_of (d_envKeys example_dialog))"
    using cfg by (auto simp add: handleSave_def example_dialog_def split: if_splits)
  have e1: "env_of (d_envKeys example_dialog) ''API_URL'' = Some ''http://vbr:9419''"
    by (simp add: env_of_def example_dialog_def trim_def isWhiteSpace_def set_property_def)
  have e2: "env_of (d_envKeys example_dialog) [] = None"
    by (simp add: env_of_def example_dialog_def trim_def isWhiteSpace_def set_property_def)
  have b: "\<exists>cfg. handleSave example_dialog = Some cfg
          \<and> cfg_name cfg = ''veeam''
          \<and> cfg_command cfg = ''npx''
          \<and> cfg_args cfg = [''-y'', ''@veeam/mcp'']
          \<and> (\<exists>m. cfg_env cfg = Some m \<and> m ''API_URL'' = Some ''http://vbr:9419''
                  \<and> m [] = None)"
    using handleSave_config [of example_dialog] cfg tn tc ta env e1 e2 by auto
  let ?d = "example_dialog\<lparr>d_envKeys := []\<rparr>"
  have tn': "trim (d_name ?d) \<noteq> []" using tn by simp
  have tc': "trim (d_command ?d) \<noteq> []" using tc by simp
  obtain cfg' where cfg': "handleSave ?d = Some cfg'"
    using handleSave_config [of ?d] tn' tc' by (cases "handleSave ?d") auto
  have c: "\<exists>cfg. handleSave ?d = Some cfg \<and> cfg_env cfg = None"
    using handleSave_config [of ?d] cfg' by auto
  show ?thesis using a b c by blast
qed

section \<open>Provider statuses\<close>




end
